theory Spec2Isabelle
  imports Main "HOL-Library.Word"
begin

section \<open>The load hook of react-native-nitro-bg-timer (cpp-adapter.cpp)\<close>

text \<open>
  The translation unit \<^verbatim>\<open>android/src/main/cpp/cpp-adapter.cpp\<close> holds one function:
  \<^verbatim>\<open>
  JNIEXPORT jint JNICALL JNI_OnLoad(JavaVM *vm, void *)
  {
    return facebook::jni::initialize(vm, [=]
                                     { margelo::nitro::backgroundtimer::initialize(vm); });
  }
  \<close>
  It calls two functions that are defined elsewhere: the binding layer's
  \<^verbatim>\<open>facebook::jni::initialize\<close> (fbjni) and the module registration routine
  \<^verbatim>\<open>margelo::nitro::backgroundtimer::initialize\<close> (NitroBackgroundTimerOnLoad.hpp).
  The embedding takes both as parameters of the entry point.
\<close>

subsection \<open>Data\<close>

text \<open>\<^verbatim>\<open>jint\<close> is the 32-bit integer of the JNI.\<close>

type_synonym jint = "32 word"

text \<open>
  A C++ call either returns a value or leaves by an exception, and it may change the state
  of the process. A computation over a process state \<open>'w\<close> is a function from the state
  before to the outcome (\<open>Inl\<close> the exception, \<open>Inr\<close> the returned value) and the
  state after.
\<close>

type_synonym ('e, 'a, 'w) comp = "'w \<Rightarrow> ('e + 'a) \<times> 'w"

text \<open>
  The host handle \<^verbatim>\<open>JavaVM *vm\<close> and the reserved \<^verbatim>\<open>void *\<close> are values of
  arbitrary types \<open>'vm\<close> and \<open>'r\<close>: the entry point has no operation on either.
\<close>

subsection \<open>The entry point\<close>

text \<open>
  The closure \<^verbatim>\<open>[=] { margelo::nitro::backgroundtimer::initialize(vm); }\<close>: it captures
  \<^verbatim>\<open>vm\<close>, takes no argument, calls the registration routine as an expression statement
  (whatever the routine returns is dropped) and returns \<^verbatim>\<open>void\<close>. An exception of
  the routine leaves the closure unchanged, as the closure has no handler.
\<close>

definition init_callback :: "('vm \<Rightarrow> ('e, 'a, 'w) comp) \<Rightarrow> 'vm \<Rightarrow> ('e, unit, 'w) comp" where
  "init_callback registration vm w =
     (case registration vm w of
        (Inl e, w') \<Rightarrow> (Inl e, w')
      | (Inr _, w') \<Rightarrow> (Inr (), w'))"

text \<open>
  \<^verbatim>\<open>JNI_OnLoad\<close>: one return statement, the call of the binding layer's initialize
  with the handle and the closure. The second parameter has no name in the source.
\<close>

definition JNI_OnLoad ::
  "('vm \<Rightarrow> ('e, unit, 'w) comp \<Rightarrow> ('e, jint, 'w) comp) \<Rightarrow> ('vm \<Rightarrow> ('e, 'a, 'w) comp)
     \<Rightarrow> 'vm \<Rightarrow> 'r \<Rightarrow> ('e, jint, 'w) comp" where
  "JNI_OnLoad binding registration vm reserved w =
     binding vm (init_callback registration vm) w"

subsection \<open>The collaborators, as the specification describes them\<close>

text \<open>
  To count calls, the process state of the collaborators below carries a log of the calls
  made to them, beside the state \<open>ext\<close> they work on (the binding layer's singleton, the
  module registry).
\<close>

datatype 'vm call = BindingInitialize 'vm | RegisterModule 'vm

record ('vm, 'x) process =
  calls :: "'vm call list"
  ext :: 'x

text \<open>The handles the registration routine was called with, oldest first.\<close>

fun registered :: "'vm call list \<Rightarrow> 'vm list" where
  "registered [] = []"
| "registered (BindingInitialize h # cs) = registered cs"
| "registered (RegisterModule h # cs) = h # registered cs"

text \<open>The only kind of error the specification names (section 7).\<close>

datatype error = InitializationFailure

text \<open>
  Modelled from the spec: the binding layer's \<^verbatim>\<open>facebook::jni::initialize\<close>, of which
  the repository's sources hold the call only. The specification gives it as
  "initialize(HostHandle, InitCallback) -> VersionStatusCode", a scoped acquisition
  ("acquire binding context, run a caller-supplied action inside it, release/report
  status"): when the initialization fails the failure is signalled and the callback is
  not run; otherwise the callback runs inside the initialized context, what it signals
  goes to the caller, and on success the fixed version value is returned. The
  acquisition \<open>acquire\<close> (it decides, from the handle and the state, whether the
  initialization succeeds) and the version value are parameters.
\<close>

definition fbjni_initialize ::
  "('vm \<Rightarrow> ('e, unit, 'x) comp) \<Rightarrow> jint
     \<Rightarrow> 'vm \<Rightarrow> ('e, unit, ('vm, 'x) process) comp \<Rightarrow> ('e, jint, ('vm, 'x) process) comp" where
  "fbjni_initialize acquire version vm init_fn p =
     (let p0 = p\<lparr>calls := calls p @ [BindingInitialize vm]\<rparr> in
      case acquire vm (ext p0) of
        (Inl e, x) \<Rightarrow> (Inl e, p0\<lparr>ext := x\<rparr>)
      | (Inr _, x) \<Rightarrow>
          (case init_fn (p0\<lparr>ext := x\<rparr>) of
             (Inl e, p1) \<Rightarrow> (Inl e, p1)
           | (Inr _, p1) \<Rightarrow> (Inr version, p1)))"

text \<open>
  Modelled from the spec: the module registration routine
  \<^verbatim>\<open>margelo::nitro::backgroundtimer::initialize\<close>, of which the repository's sources
  hold the call only. The specification gives it as "registerModule(HostHandle) -> void" and leaves its
  behaviour open: its effect on the state, its outcome and the value it returns are the
  parameter \<open>register\<close>. Each call is logged with the handle it received.
\<close>

definition registerModule ::
  "('vm \<Rightarrow> ('e, 'a, 'x) comp) \<Rightarrow> 'vm \<Rightarrow> ('e, 'a, ('vm, 'x) process) comp" where
  "registerModule register vm p =
     (let p0 = p\<lparr>calls := calls p @ [RegisterModule vm]\<rparr> in
      case register vm (ext p0) of (r, x) \<Rightarrow> (r, p0\<lparr>ext := x\<rparr>))"

subsection \<open>Changing what the registration routine returns\<close>

text \<open>
  \<open>with_value g registration\<close> is the routine \<open>registration\<close> with the same effect on the
  state and the same exceptions, returning \<open>g h w a\<close> wherever \<open>registration\<close>, called with
  handle \<open>h\<close> in state \<open>w\<close>, returns \<open>a\<close>. Every routine that differs from
  \<open>registration\<close> in its returned values only is of this form.
\<close>

definition with_value ::
  "('vm \<Rightarrow> 'w \<Rightarrow> 'a \<Rightarrow> 'b) \<Rightarrow> ('vm \<Rightarrow> ('e, 'a, 'w) comp) \<Rightarrow> 'vm \<Rightarrow> ('e, 'b, 'w) comp" where
  "with_value g registration h w =
     (case registration h w of
        (Inl e, w') \<Rightarrow> (Inl e, w')
      | (Inr a, w') \<Rightarrow> (Inr (g h w a), w'))"

subsection \<open>Test doubles\<close>

text \<open>
  The scenario of the specification's section 8: a host handle, a binding layer whose
  initialization succeeds (or, fault-injected, fails) and a registration routine that
  counts in \<open>ext\<close> how often it ran (and one that fails after counting).
\<close>

definition acquire_ok :: "nat \<Rightarrow> (error, unit, nat) comp" where
  "acquire_ok h x = (Inr (), x)"

definition acquire_faulty :: "nat \<Rightarrow> (error, unit, nat) comp" where
  "acquire_faulty h x = (Inl InitializationFailure, x)"

definition register_ok :: "nat \<Rightarrow> (error, unit, nat) comp" where
  "register_ok h x = (Inr (), Suc x)"

definition register_faulty :: "nat \<Rightarrow> (error, unit, nat) comp" where
  "register_faulty h x = (Inl InitializationFailure, Suc x)"

definition fresh :: "(nat, nat) process" where
  "fresh = \<lparr>calls = [], ext = 0\<rparr>"

section \<open>Properties\<close>

subsection \<open>Auxiliary facts\<close>

lemma registered_append: "registered (cs @ ds) = registered cs @ registered ds"
  by (induction cs rule: registered.induct) simp_all

text \<open>The entry point run with the two collaborators above, case by case.\<close>

lemma JNI_OnLoad_acquire_fails:
  assumes "acquire vm (ext p) = (Inl e, x)"
  shows "JNI_OnLoad (fbjni_initialize acquire version) (registerModule register) vm reserved p
         = (Inl e, p\<lparr>calls := calls p @ [BindingInitialize vm], ext := x\<rparr>)"
  using assms by (simp add: JNI_OnLoad_def fbjni_initialize_def)

lemma JNI_OnLoad_register_fails:
  assumes "acquire vm (ext p) = (Inr u, x)" and "register vm x = (Inl e, y)"
  shows "JNI_OnLoad (fbjni_initialize acquire version) (registerModule register) vm reserved p
         = (Inl e, p\<lparr>calls := calls p @ [BindingInitialize vm, RegisterModule vm], ext := y\<rparr>)"
  using assms
  by (simp add: JNI_OnLoad_def fbjni_initialize_def init_callback_def registerModule_def)

lemma JNI_OnLoad_both_succeed:
  assumes "acquire vm (ext p) = (Inr u, x)" and "register vm x = (Inr a, y)"
  shows "JNI_OnLoad (fbjni_initialize acquire version) (registerModule register) vm reserved p
         = (Inr version, p\<lparr>calls := calls p @ [BindingInitialize vm, RegisterModule vm], ext := y\<rparr>)"
  using assms
  by (simp add: JNI_OnLoad_def fbjni_initialize_def init_callback_def registerModule_def)

subsection \<open>Delegation of the result\<close>

text \<open>
  C1. What the host receives is what the collaborators signal, untouched.
  For every binding layer, registration routine, host handle, reserved value and
  process state: the outcome of the entry point (the status it returns or the exception
  it leaves by) and the state it leaves are those of the binding layer's initialize
  called with the handle and the closure; the closure, run in any state \<open>s\<close>, leaves
  the state the registration routine leaves and ends by the exception \<open>e\<close> exactly when
  the routine does. So, with the collaborators of the specification, the host receives
  the binding layer's own failure when the initialization fails, the registration
  routine's own exception when the routine called inside it fails, and the binding
  layer's version value otherwise, with the calls made logged in each case.
\<close>

theorem JNI_OnLoad_signals_verbatim:
  "JNI_OnLoad binding registration vm reserved w
     = binding vm (init_callback registration vm) w
   \<and> snd (init_callback registration vm s) = snd (registration vm s)
   \<and> (fst (init_callback registration vm s) = Inl e) = (fst (registration vm s) = Inl e)
   \<and> JNI_OnLoad (fbjni_initialize acquire version) (registerModule register) vm reserved p
     = (case acquire vm (ext p) of
          (Inl e1, x) \<Rightarrow> (Inl e1, p\<lparr>calls := calls p @ [BindingInitialize vm], ext := x\<rparr>)
        | (Inr u, x) \<Rightarrow>
            (case register vm x of
               (Inl e2, y) \<Rightarrow>
                 (Inl e2,
                  p\<lparr>calls := calls p @ [BindingInitialize vm, RegisterModule vm], ext := y\<rparr>)
             | (Inr a, y) \<Rightarrow>
                 (Inr version,
                  p\<lparr>calls := calls p @ [BindingInitialize vm, RegisterModule vm], ext := y\<rparr>)))"
proof (intro conjI)
  show "JNI_OnLoad binding registration vm reserved w
          = binding vm (init_callback registration vm) w"
    by (simp add: JNI_OnLoad_def)
next
  show "snd (init_callback registration vm s) = snd (registration vm s)"
    by (cases "registration vm s") (simp add: init_callback_def split: sum.splits)
next
  show "(fst (init_callback registration vm s) = Inl e) = (fst (registration vm s) = Inl e)"
    by (cases "registration vm s") (simp add: init_callback_def split: sum.splits)
next
  obtain r x where acq: "acquire vm (ext p) = (r, x)"
    by (cases "acquire vm (ext p)")
  obtain t y where reg: "register vm x = (t, y)"
    by (cases "register vm x")
  show "JNI_OnLoad (fbjni_initialize acquire version) (registerModule register) vm reserved p
     = (case acquire vm (ext p) of
          (Inl e1, x) \<Rightarrow> (Inl e1, p\<lparr>calls := calls p @ [BindingInitialize vm], ext := x\<rparr>)
        | (Inr u, x) \<Rightarrow>
            (case register vm x of
               (Inl e2, y) \<Rightarrow>
                 (Inl e2,
                  p\<lparr>calls := calls p @ [BindingInitialize vm, RegisterModule vm], ext := y\<rparr>)
             | (Inr a, y) \<Rightarrow>
                 (Inr version,
                  p\<lparr>calls := calls p @ [BindingInitialize vm, RegisterModule vm], ext := y\<rparr>)))"
  proof (cases r)
    case (Inl e1)
    with acq show ?thesis
      by (simp add: JNI_OnLoad_acquire_fails)
  next
    case (Inr u)
    note ok = this
    show ?thesis
    proof (cases t)
      case (Inl e2)
      with acq reg ok show ?thesis
        by (simp add: JNI_OnLoad_register_fails)
    next
      case (Inr a)
      with acq reg ok show ?thesis
        by (simp add: JNI_OnLoad_both_succeed)
    qed
  qed
qed

text \<open>
  The fault-injected registration routine behind a binding layer whose initialization
  succeeds: the host receives the routine's failure, not a version value, and the state
  is the one the routine left.
\<close>

theorem JNI_OnLoad_signals_verbatim_witness:
  "JNI_OnLoad (fbjni_initialize acquire_ok 0x00010006) (registerModule register_faulty)
        7 () fresh
     = (Inl InitializationFailure,
        \<lparr>calls = [BindingInitialize 7, RegisterModule 7], ext = 1\<rparr>)
   \<and> fst (init_callback register_faulty 7 0) = Inl InitializationFailure
   \<and> snd (init_callback register_faulty 7 0) = 1"
proof -
  note v = JNI_OnLoad_signals_verbatim [where registration = register_faulty
      and register = register_faulty and acquire = acquire_ok and vm = 7 and s = 0
      and e = InitializationFailure and p = fresh and version = "0x00010006"
      and reserved = "()"]
  from v have run: "JNI_OnLoad (fbjni_initialize acquire_ok 0x00010006)
        (registerModule register_faulty) 7 () fresh
     = (Inl InitializationFailure,
        \<lparr>calls = [BindingInitialize 7, RegisterModule 7], ext = 1\<rparr>)"
    by (simp add: acquire_ok_def register_faulty_def fresh_def)
  from v have thrown: "fst (init_callback register_faulty 7 0) = Inl InitializationFailure"
    by (simp add: register_faulty_def)
  from v have left: "snd (init_callback register_faulty 7 0) = 1"
    by (simp add: register_faulty_def)
  from run thrown left show ?thesis
    by simp
qed

subsection \<open>The load with the collaborators of the specification\<close>

text \<open>
  C2. With the binding layer of the specification: for every host handle and process
  state in which the binding layer's initialization succeeds (the binding context is
  acquired and the registration run inside it returns), the entry point returns the
  binding layer's fixed version value.
\<close>

theorem JNI_OnLoad_success_version:
  assumes "acquire vm (ext p) = (Inr u, x)" and "fst (register vm x) = Inr a"
  shows "fst (JNI_OnLoad (fbjni_initialize acquire version) (registerModule register)
                vm reserved p) = Inr version"
proof -
  obtain y where "register vm x = (Inr a, y)"
    using assms(2) by (cases "register vm x") simp
  with assms(1) show ?thesis
    by (simp add: JNI_OnLoad_both_succeed)
qed

theorem JNI_OnLoad_success_version_witness:
  "acquire_ok 7 (ext fresh) = (Inr (), 0)
   \<and> fst (register_ok 7 0) = Inr ()
   \<and> fst (JNI_OnLoad (fbjni_initialize acquire_ok 0x00010006) (registerModule register_ok)
             7 () fresh) = Inr 0x00010006"
proof -
  have h1: "acquire_ok 7 (ext fresh) = (Inr (), 0)"
    by (simp add: acquire_ok_def fresh_def)
  have h2: "fst (register_ok 7 0) = Inr ()"
    by (simp add: register_ok_def)
  show ?thesis
    using h1 h2
      JNI_OnLoad_success_version [where acquire = acquire_ok and register = register_ok
        and vm = 7 and p = fresh and version = "0x00010006" and reserved = "()", OF h1 h2]
    by simp
qed

text \<open>
  C3. With the collaborators of the specification: whenever the entry point succeeds
  (it returns a status), the registration routine has been called exactly once during
  the call: the log of its calls is one longer than before.
\<close>

theorem JNI_OnLoad_success_registers_once:
  assumes "JNI_OnLoad (fbjni_initialize acquire version) (registerModule register)
             vm reserved p = (Inr status, p')"
  shows "length (registered (calls p')) = Suc (length (registered (calls p)))"
proof -
  obtain r x where acq: "acquire vm (ext p) = (r, x)"
    by (cases "acquire vm (ext p)")
  obtain s y where reg: "register vm x = (s, y)"
    by (cases "register vm x")
  show ?thesis
  proof (cases r)
    case (Inl e)
    with acq assms show ?thesis
      by (simp add: JNI_OnLoad_acquire_fails)
  next
    case (Inr u)
    note ok = this
    show ?thesis
    proof (cases s)
      case (Inl e)
      with acq reg ok assms show ?thesis
        by (simp add: JNI_OnLoad_register_fails)
    next
      case (Inr a)
      with acq reg ok assms
      have "p' = p\<lparr>calls := calls p @ [BindingInitialize vm, RegisterModule vm], ext := y\<rparr>"
        by (simp add: JNI_OnLoad_both_succeed)
      then show ?thesis
        by (simp add: registered_append)
    qed
  qed
qed

theorem JNI_OnLoad_success_registers_once_witness:
  "JNI_OnLoad (fbjni_initialize acquire_ok 0x00010006) (registerModule register_ok)
        7 () \<lparr>calls = [RegisterModule 3], ext = 0\<rparr>
     = (Inr 0x00010006,
        \<lparr>calls = [RegisterModule 3, BindingInitialize 7, RegisterModule 7], ext = 1\<rparr>)
   \<and> length (registered (calls
        \<lparr>calls = [RegisterModule 3, BindingInitialize 7, RegisterModule (7::nat)], ext = 1::nat\<rparr>))
     = Suc (length (registered (calls \<lparr>calls = [RegisterModule (3::nat)], ext = 0::nat\<rparr>)))"
proof -
  have h: "JNI_OnLoad (fbjni_initialize acquire_ok 0x00010006) (registerModule register_ok)
        7 () \<lparr>calls = [RegisterModule 3], ext = 0\<rparr>
     = (Inr 0x00010006,
        \<lparr>calls = [RegisterModule 3, BindingInitialize 7, RegisterModule 7], ext = 1\<rparr>)"
    by (simp add: JNI_OnLoad_def fbjni_initialize_def init_callback_def registerModule_def
        acquire_ok_def register_ok_def)
  show ?thesis
    using h JNI_OnLoad_success_registers_once [OF h] by simp
qed

text \<open>
  C4. With the collaborators of the specification: for every host handle and process
  state in which the binding layer's initialization fails with \<open>e\<close>, the entry point
  leaves by that failure instead of returning a status, and the registration routine is
  not called: the log of its calls is as before.
\<close>

theorem JNI_OnLoad_failure_not_registered:
  assumes "acquire vm (ext p) = (Inl e, x)"
  shows "fst (JNI_OnLoad (fbjni_initialize acquire version) (registerModule register)
                vm reserved p) = Inl e
         \<and> registered (calls (snd (JNI_OnLoad (fbjni_initialize acquire version)
                (registerModule register) vm reserved p))) = registered (calls p)"
  using assms by (simp add: JNI_OnLoad_acquire_fails registered_append)

theorem JNI_OnLoad_failure_not_registered_witness:
  "acquire_faulty 7 (ext fresh) = (Inl InitializationFailure, 0)
   \<and> fst (JNI_OnLoad (fbjni_initialize acquire_faulty 0x00010006) (registerModule register_ok)
             7 () fresh) = Inl InitializationFailure
   \<and> registered (calls (snd (JNI_OnLoad (fbjni_initialize acquire_faulty 0x00010006)
             (registerModule register_ok) 7 () fresh))) = registered (calls fresh)"
proof -
  have h: "acquire_faulty 7 (ext fresh) = (Inl InitializationFailure, 0)"
    by (simp add: acquire_faulty_def fresh_def)
  show ?thesis
    using h
      JNI_OnLoad_failure_not_registered [where acquire = acquire_faulty
        and register = register_ok and vm = 7 and p = fresh and version = "0x00010006"
        and reserved = "()", OF h]
    by simp
qed

text \<open>
  C5. With the collaborators of the specification: for every host handle \<open>H\<close> whose
  binding-layer initialization succeeds, the entry point returns the fixed version value
  and the registration routine is called with \<open>H\<close> itself: the handles it was called
  with are those of before, then \<open>H\<close>, once.
\<close>

theorem JNI_OnLoad_registers_same_handle:
  assumes "acquire H (ext p) = (Inr u, x)" and "fst (register H x) = Inr a"
  shows "fst (JNI_OnLoad (fbjni_initialize acquire version) (registerModule register)
                H reserved p) = Inr version
         \<and> registered (calls (snd (JNI_OnLoad (fbjni_initialize acquire version)
                (registerModule register) H reserved p))) = registered (calls p) @ [H]"
proof -
  obtain y where "register H x = (Inr a, y)"
    using assms(2) by (cases "register H x") simp
  with assms(1) show ?thesis
    by (simp add: JNI_OnLoad_both_succeed registered_append)
qed

theorem JNI_OnLoad_registers_same_handle_witness:
  "acquire_ok 7 (ext fresh) = (Inr (), 0)
   \<and> fst (register_ok 7 0) = Inr ()
   \<and> fst (JNI_OnLoad (fbjni_initialize acquire_ok 0x00010006) (registerModule register_ok)
             7 () fresh) = Inr 0x00010006
   \<and> registered (calls (snd (JNI_OnLoad (fbjni_initialize acquire_ok 0x00010006)
             (registerModule register_ok) 7 () fresh))) = registered (calls fresh) @ [7]"
proof -
  have h1: "acquire_ok 7 (ext fresh) = (Inr (), 0)"
    by (simp add: acquire_ok_def fresh_def)
  have h2: "fst (register_ok 7 0) = Inr ()"
    by (simp add: register_ok_def)
  show ?thesis
    using h1 h2
      JNI_OnLoad_registers_same_handle [where acquire = acquire_ok and register = register_ok
        and H = 7 and p = fresh and version = "0x00010006" and reserved = "()", OF h1 h2]
    by simp
qed

subsection \<open>What the entry point does not depend on\<close>

text \<open>
  C6. The reserved parameter is unused: for every binding layer, registration routine,
  host handle and process state, two calls that differ in the reserved value only have
  the same outcome and leave the same state. With collaborators that log their calls in
  the state, as those of the specification do, the same state means the same calls.
\<close>

theorem JNI_OnLoad_reserved_unused:
  "JNI_OnLoad binding registration vm r1 w = JNI_OnLoad binding registration vm r2 w"
  by (simp add: JNI_OnLoad_def)

text \<open>
  C8. The host handle is opaque to the entry point. For every function \<open>f\<close> on handles
  (a change of their representation, a lookup behind them), running the entry point on
  \<open>vm\<close> with collaborators that apply \<open>f\<close> to the handle they receive is the same as
  running it on \<open>f vm\<close>: the entry point applies no operation of its own to the handle,
  and both the binding layer and the registration routine receive the handle the host
  supplied, unchanged.
\<close>

theorem JNI_OnLoad_handle_opaque:
  "JNI_OnLoad (\<lambda>h. binding (f h)) (\<lambda>h. registration (f h)) vm reserved w
   = JNI_OnLoad binding registration (f vm) reserved w"
proof -
  have "init_callback (\<lambda>h. registration (f h)) vm = init_callback registration (f vm)"
    by (rule ext) (simp add: init_callback_def)
  then show ?thesis
    by (simp add: JNI_OnLoad_def)
qed

text \<open>
  C10. The value the registration routine returns never reaches the status: for every
  binding layer, host handle and process state, replacing the values the routine returns
  by any others (\<open>with_value g\<close>, effects and exceptions as they were) changes neither
  the outcome of the entry point nor the state it leaves.
\<close>

theorem JNI_OnLoad_ignores_registration_value:
  "JNI_OnLoad binding (with_value g registration) vm reserved w
   = JNI_OnLoad binding registration vm reserved w"
proof -
  have "init_callback (with_value g registration) vm = init_callback registration vm"
  proof (rule ext)
    fix s
    show "init_callback (with_value g registration) vm s = init_callback registration vm s"
      by (cases "registration vm s")
        (simp add: init_callback_def with_value_def split: sum.splits)
  qed
  then show ?thesis
    by (simp add: JNI_OnLoad_def)
qed

end
